theory Spec2Isabelle
  imports Main
begin

section \<open>The Card body component of the hyperglass UI\<close>

text \<open>
  The development embeds \<^verbatim>\<open>hyperglass/ui/components/Card/body.tsx\<close>:
  \<^verbatim>\<open>
  export const CardBody = (props: ICardBody) => {
    const { onClick, ...rest } = props;
    const bg = useColorValue('white', 'original.dark');
    const color = useColorValue('original.dark', 'white');
    return (
      <Flex bg={bg} w="100%" maxW="100%" rounded="md" color={color} onClick={onClick}
        overflow="hidden" borderWidth="1px" direction="column" {...rest} />
    );
  };
  \<close>
  A props object is a finite map from attribute names to run-time values; the JSX
  expression is the call of the element factory on \<^verbatim>\<open>Flex\<close> and on the object
  literal that writes the nine named attributes in order and then spreads
  \<^verbatim>\<open>rest\<close> over them.
\<close>

subsection \<open>Values, props objects and elements\<close>

text \<open>
  Run-time values. The component itself writes only string literals and passes every
  other value through untouched, so all values that are neither \<^verbatim>\<open>undefined\<close>
  nor a string (callbacks, numbers, objects) are kept opaque in the type parameter and
  compared by identity.
\<close>

datatype 'a jsval = Undefined | Str string | Val 'a

type_synonym 'a props = "string \<rightharpoonup> 'a jsval"

text \<open>Reading a property: a key the object does not own reads as \<^verbatim>\<open>undefined\<close>.\<close>

definition get_prop :: "'a props \<Rightarrow> string \<Rightarrow> 'a jsval" where
  "get_prop obj k = (case obj k of None \<Rightarrow> Undefined | Some v \<Rightarrow> v)"

datatype component = Flex

text \<open>An element is what the JSX factory returns: the component type and its props.\<close>

datatype 'a element = Element (etype: component) (eprops: "'a props")

subsection \<open>The theme mode and its resolver\<close>

datatype ThemeMode = Light | Dark

text \<open>
  The shared state the hooks read. The record is extensible, so that every statement
  below holds for whatever else the surrounding application keeps in it.
\<close>

record theme_state =
  colorMode :: ThemeMode

text \<open>
  Modelled from the spec: \<^verbatim>\<open>useColorValue\<close> is imported from \<^verbatim>\<open>~/context\<close>,
  which is not among the sources. The specification describes it as a read accessor of the
  current theme mode with the selector
  \<^verbatim>\<open>resolve(lightValue, darkValue) -> value\<close>, equal to "return lightValue if mode is
  Light else darkValue". The state is passed through and returned.
\<close>

definition useColorValue ::
    "'v \<Rightarrow> 'v \<Rightarrow> 'c theme_state_scheme \<Rightarrow> 'v \<times> 'c theme_state_scheme" where
  "useColorValue lightValue darkValue s =
     (if colorMode s = Light then lightValue else darkValue, s)"

subsection \<open>CardBody\<close>

text \<open>Line 7: \<^verbatim>\<open>const { onClick, ...rest } = props\<close>.\<close>

definition destructure :: "'a props \<Rightarrow> 'a jsval \<times> 'a props" where
  "destructure props = (get_prop props ''onClick'', props(''onClick'' := None))"

text \<open>Lines 8 and 9: the two color resolutions, in the order of the calls.\<close>

definition CardBody_colors ::
    "'c theme_state_scheme \<Rightarrow> ('a jsval \<times> 'a jsval) \<times> 'c theme_state_scheme" where
  "CardBody_colors s0 =
     (let (bg, s1) = useColorValue (Str ''white'') (Str ''original.dark'') s0;
          (color, s2) = useColorValue (Str ''original.dark'') (Str ''white'') s1
      in ((bg, color), s2))"

text \<open>Lines 12 to 20: the attributes written before the spread, in source order.\<close>

definition computed :: "'a jsval \<Rightarrow> 'a jsval \<Rightarrow> 'a jsval \<Rightarrow> 'a props" where
  "computed bg color onClick =
     [''bg'' \<mapsto> bg,
      ''w'' \<mapsto> Str ''100%'',
      ''maxW'' \<mapsto> Str ''100%'',
      ''rounded'' \<mapsto> Str ''md'',
      ''color'' \<mapsto> color,
      ''onClick'' \<mapsto> onClick,
      ''overflow'' \<mapsto> Str ''hidden'',
      ''borderWidth'' \<mapsto> Str ''1px'',
      ''direction'' \<mapsto> Str ''column'']"

text \<open>
  The component. The spread on line 21 copies every property of \<^verbatim>\<open>rest\<close> over the
  attributes written so far: \<open>m ++ n\<close> takes the value of \<open>n\<close> wherever \<open>n\<close> has the key.
\<close>

definition CardBody ::
    "'a props \<Rightarrow> 'c theme_state_scheme \<Rightarrow> 'a element \<times> 'c theme_state_scheme" where
  "CardBody props s0 =
     (let (onClick, rest) = destructure props;
          ((bg, color), s2) = CardBody_colors s0
      in (Element Flex (computed bg color onClick ++ rest), s2))"

text \<open>The attribute set handed to the rendering primitive.\<close>

definition rendered :: "'a props \<Rightarrow> 'c theme_state_scheme \<Rightarrow> 'a props" where
  "rendered props s = eprops (fst (CardBody props s))"

text \<open>The names of the nine attributes the component writes itself.\<close>

definition named :: "string set" where
  "named = {''bg'', ''w'', ''maxW'', ''rounded'', ''color'', ''onClick'', ''overflow'',
            ''borderWidth'', ''direction''}"

text \<open>The other member of the two-valued theme mode.\<close>

fun other_mode :: "ThemeMode \<Rightarrow> ThemeMode" where
  "other_mode Light = Dark"
| "other_mode Dark = Light"

section \<open>Basic facts\<close>

lemma colors_unfold:
  "CardBody_colors s =
     ((if colorMode s = Light then Str ''white'' else Str ''original.dark'',
       if colorMode s = Light then Str ''original.dark'' else Str ''white''), s)"
  by (simp add: CardBody_colors_def useColorValue_def)

lemma CardBody_unfold:
  "CardBody props s =
     (Element Flex
        (computed (fst (fst (CardBody_colors s))) (snd (fst (CardBody_colors s)))
           (get_prop props ''onClick'') ++ props(''onClick'' := None)), s)"
  by (simp add: CardBody_def destructure_def colors_unfold)

lemma rendered_unfold:
  "rendered props s =
     computed (fst (fst (CardBody_colors s))) (snd (fst (CardBody_colors s)))
       (get_prop props ''onClick'') ++ props(''onClick'' := None)"
  by (simp add: rendered_def CardBody_unfold)

lemma rendered_supplied:
  assumes "k \<noteq> ''onClick''" and "props k = Some v"
  shows "rendered props s k = Some v"
  using assms by (simp add: rendered_unfold)

lemma rendered_default:
  assumes "props k = None"
  shows "rendered props s k =
     computed (fst (fst (CardBody_colors s))) (snd (fst (CardBody_colors s)))
       (get_prop props ''onClick'') k"
  using assms by (simp add: rendered_unfold map_add_def)

lemma dom_computed: "dom (computed bg color onClick) = named"
  by (auto simp: computed_def named_def)

section \<open>The claims\<close>

text \<open>
  C7. Rendering leaves the shared theme-mode state unchanged: for every props object and
  every state, the state returned by the component, after its two color resolutions, is
  the state it was given, and each of the two resolutions returns its state as it was.
\<close>

theorem CardBody_state_unchanged:
  "snd (CardBody props s) = s \<and> snd (CardBody_colors s) = s
   \<and> snd (useColorValue lightValue darkValue s) = s"
  by (simp add: CardBody_unfold colors_unfold useColorValue_def)

text \<open>
  C1, as amended. In Light mode, every props object that supplies no \<^verbatim>\<open>bg\<close> of its
  own renders a white background, and every props object that supplies no \<^verbatim>\<open>color\<close>
  of its own renders the text color \<^verbatim>\<open>original.dark\<close>. For every props object these
  two are the values resolved on lines 8 and 9 and written before the spread, so the
  rendered attribute set is those computed attributes with the rest of the props merged
  over them.
\<close>

theorem light_mode_colors:
  assumes "colorMode s = Light"
  shows "fst (CardBody_colors s) = (Str ''white'', Str ''original.dark'')
       \<and> rendered props s =
           computed (Str ''white'') (Str ''original.dark'') (get_prop props ''onClick'')
             ++ snd (destructure props)
       \<and> (props ''bg'' = None \<longrightarrow> rendered props s ''bg'' = Some (Str ''white''))
       \<and> (props ''color'' = None \<longrightarrow> rendered props s ''color'' = Some (Str ''original.dark''))"
proof -
  have c: "fst (CardBody_colors s) = (Str ''white'', Str ''original.dark'')"
    using assms by (simp add: colors_unfold)
  have r: "rendered props s =
           computed (Str ''white'') (Str ''original.dark'') (get_prop props ''onClick'')
             ++ snd (destructure props)"
    using assms by (simp add: rendered_unfold colors_unfold destructure_def)
  have b: "props ''bg'' = None \<longrightarrow> rendered props s ''bg'' = Some (Str ''white'')"
    using assms by (simp add: rendered_default colors_unfold computed_def)
  have f: "props ''color'' = None \<longrightarrow> rendered props s ''color'' = Some (Str ''original.dark'')"
    using assms by (simp add: rendered_default colors_unfold computed_def)
  from c r b f show ?thesis by blast
qed

theorem light_mode_colors_witness:
  "colorMode \<lparr>colorMode = Light\<rparr> = Light
   \<and> fst (CardBody_colors \<lparr>colorMode = Light\<rparr>) = (Str ''white'', Str ''original.dark'' :: unit jsval)
   \<and> rendered [''w'' \<mapsto> Str ''50%''] \<lparr>colorMode = Light\<rparr> ''bg'' = Some (Str ''white'' :: unit jsval)
   \<and> rendered [''w'' \<mapsto> Str ''50%''] \<lparr>colorMode = Light\<rparr> ''color''
       = Some (Str ''original.dark'' :: unit jsval)"
proof -
  let ?s = "\<lparr>colorMode = Light\<rparr>"
  let ?p = "[''w'' \<mapsto> Str ''50%''] :: unit props"
  have h: "colorMode ?s = Light" by simp
  have n1: "?p ''bg'' = None" by simp
  have n2: "?p ''color'' = None" by simp
  from light_mode_colors [OF h, of ?p] n1 n2 h show ?thesis by blast
qed

text \<open>
  C1 as stated, for every props object, does not hold: in Light mode the props
  \<^verbatim>\<open>{ bg: 'red' }\<close> render the background \<^verbatim>\<open>red\<close>, not white, because the spread
  on line 21 comes after the \<^verbatim>\<open>bg\<close> written on line 12.
\<close>

theorem light_mode_colors_counterexample:
  "colorMode \<lparr>colorMode = Light\<rparr> = Light
   \<and> rendered [''bg'' \<mapsto> Str ''red''] \<lparr>colorMode = Light\<rparr> ''bg'' = Some (Str ''red'' :: unit jsval)
   \<and> rendered [''bg'' \<mapsto> Str ''red''] \<lparr>colorMode = Light\<rparr> ''bg''
       \<noteq> Some (Str ''white'' :: unit jsval)"
  by (simp add: rendered_unfold)

text \<open>
  C2, as amended. In Dark mode, every props object that supplies no \<^verbatim>\<open>bg\<close> of its own
  renders the background \<^verbatim>\<open>original.dark\<close>, and every props object that supplies no
  \<^verbatim>\<open>color\<close> of its own renders a white text color; for every props object these two
  are the values resolved on lines 8 and 9 and written before the spread. In every mode
  the resolved text color is the resolved background of the other mode and the resolved
  background is the resolved text color of the other mode, and for a props object that
  supplies neither \<^verbatim>\<open>bg\<close> nor \<^verbatim>\<open>color\<close> the same mirror holds of the rendered
  attributes.
\<close>

theorem dark_mode_colors_mirror:
  assumes "colorMode s = Dark"
  shows "fst (CardBody_colors s) = (Str ''original.dark'', Str ''white'')
       \<and> rendered props s =
           computed (Str ''original.dark'') (Str ''white'') (get_prop props ''onClick'')
             ++ snd (destructure props)
       \<and> (props ''bg'' = None \<longrightarrow> rendered props s ''bg'' = Some (Str ''original.dark''))
       \<and> (props ''color'' = None \<longrightarrow> rendered props s ''color'' = Some (Str ''white''))
       \<and> snd (fst (CardBody_colors t))
           = fst (fst (CardBody_colors (t\<lparr>colorMode := other_mode (colorMode t)\<rparr>)))
       \<and> fst (fst (CardBody_colors t))
           = snd (fst (CardBody_colors (t\<lparr>colorMode := other_mode (colorMode t)\<rparr>)))
       \<and> (props ''bg'' = None \<and> props ''color'' = None \<longrightarrow>
            rendered props t ''color''
              = rendered props (t\<lparr>colorMode := other_mode (colorMode t)\<rparr>) ''bg''
          \<and> rendered props t ''bg''
              = rendered props (t\<lparr>colorMode := other_mode (colorMode t)\<rparr>) ''color'')"
proof -
  have c: "fst (CardBody_colors s) = (Str ''original.dark'', Str ''white'')"
    using assms by (simp add: colors_unfold)
  have r: "rendered props s =
           computed (Str ''original.dark'') (Str ''white'') (get_prop props ''onClick'')
             ++ snd (destructure props)"
    using assms by (simp add: rendered_unfold colors_unfold destructure_def)
  have b: "props ''bg'' = None \<longrightarrow> rendered props s ''bg'' = Some (Str ''original.dark'')"
    using assms by (simp add: rendered_default colors_unfold computed_def)
  have f: "props ''color'' = None \<longrightarrow> rendered props s ''color'' = Some (Str ''white'')"
    using assms by (simp add: rendered_default colors_unfold computed_def)
  have m1: "snd (fst (CardBody_colors t))
           = fst (fst (CardBody_colors (t\<lparr>colorMode := other_mode (colorMode t)\<rparr>)))"
    by (cases "colorMode t") (simp_all add: colors_unfold)
  have m2: "fst (fst (CardBody_colors t))
           = snd (fst (CardBody_colors (t\<lparr>colorMode := other_mode (colorMode t)\<rparr>)))"
    by (cases "colorMode t") (simp_all add: colors_unfold)
  have m3: "props ''bg'' = None \<and> props ''color'' = None \<longrightarrow>
            rendered props t ''color''
              = rendered props (t\<lparr>colorMode := other_mode (colorMode t)\<rparr>) ''bg''
          \<and> rendered props t ''bg''
              = rendered props (t\<lparr>colorMode := other_mode (colorMode t)\<rparr>) ''color''"
    by (cases "colorMode t") (simp_all add: rendered_default colors_unfold computed_def)
  from c r b f m1 m2 m3 show ?thesis by blast
qed

theorem dark_mode_colors_mirror_witness:
  "colorMode \<lparr>colorMode = Dark\<rparr> = Dark
   \<and> fst (CardBody_colors \<lparr>colorMode = Dark\<rparr>) = (Str ''original.dark'', Str ''white'' :: unit jsval)
   \<and> rendered [''w'' \<mapsto> Str ''50%''] \<lparr>colorMode = Dark\<rparr> ''bg''
       = Some (Str ''original.dark'' :: unit jsval)
   \<and> rendered [''w'' \<mapsto> Str ''50%''] \<lparr>colorMode = Dark\<rparr> ''color'' = Some (Str ''white'' :: unit jsval)
   \<and> snd (fst (CardBody_colors \<lparr>colorMode = Light\<rparr>))
       = (fst (fst (CardBody_colors \<lparr>colorMode = Dark\<rparr>)) :: unit jsval)
   \<and> rendered ([''w'' \<mapsto> Str ''50%''] :: unit props) \<lparr>colorMode = Light\<rparr> ''color''
       = rendered ([''w'' \<mapsto> Str ''50%''] :: unit props) \<lparr>colorMode = Dark\<rparr> ''bg''"
proof -
  let ?s = "\<lparr>colorMode = Dark\<rparr>"
  let ?t = "\<lparr>colorMode = Light\<rparr>"
  let ?p = "[''w'' \<mapsto> Str ''50%''] :: unit props"
  have h: "colorMode ?s = Dark" by simp
  have n1: "?p ''bg'' = None" by simp
  have n2: "?p ''color'' = None" by simp
  have o: "?t\<lparr>colorMode := other_mode (colorMode ?t)\<rparr> = ?s" by simp
  from dark_mode_colors_mirror [OF h, of ?p ?t] n1 n2 h show ?thesis
    unfolding o by blast
qed

text \<open>
  C2 as stated, for every props object, does not hold: in Dark mode the props
  \<^verbatim>\<open>{ color: 'blue' }\<close> render the text color \<^verbatim>\<open>blue\<close>, not white, and that
  rendered text color is not the background the same props render in Light mode, because
  the spread on line 21 comes after the \<^verbatim>\<open>color\<close> written on line 16.
\<close>

theorem dark_mode_colors_mirror_counterexample:
  "colorMode \<lparr>colorMode = Dark\<rparr> = Dark
   \<and> rendered [''color'' \<mapsto> Str ''blue''] \<lparr>colorMode = Dark\<rparr> ''color''
       = Some (Str ''blue'' :: unit jsval)
   \<and> rendered [''color'' \<mapsto> Str ''blue''] \<lparr>colorMode = Dark\<rparr> ''color''
       \<noteq> Some (Str ''white'' :: unit jsval)
   \<and> rendered [''color'' \<mapsto> Str ''blue''] \<lparr>colorMode = Dark\<rparr> ''color''
       \<noteq> rendered ([''color'' \<mapsto> Str ''blue''] :: unit props) \<lparr>colorMode = Light\<rparr> ''bg''"
  by (simp add: rendered_unfold colors_unfold computed_def map_add_def)

text \<open>
  C3. When the caller supplies one of the attributes \<^verbatim>\<open>bg\<close>, \<^verbatim>\<open>color\<close>,
  \<^verbatim>\<open>w\<close>, \<^verbatim>\<open>maxW\<close>, \<^verbatim>\<open>rounded\<close>, \<^verbatim>\<open>borderWidth\<close>,
  \<^verbatim>\<open>overflow\<close> or \<^verbatim>\<open>direction\<close>, each of which the component also computes,
  the rendered attribute set holds the caller's value: the rest of the props is merged after
  the computed attributes, and the later write wins.
\<close>

theorem caller_overrides_default:
  assumes "k \<in> {''bg'', ''color'', ''w'', ''maxW'', ''rounded'', ''borderWidth'',
                 ''overflow'', ''direction''}"
    and "props k = Some v"
  shows "rendered props s k = Some v
       \<and> k \<in> dom (computed bg color onClick)
       \<and> rendered props s =
           computed (fst (fst (CardBody_colors s))) (snd (fst (CardBody_colors s)))
             (get_prop props ''onClick'') ++ snd (destructure props)"
proof -
  from assms(1) have ne: "k \<noteq> ''onClick''" by auto
  have a: "rendered props s k = Some v"
    using ne assms(2) by (rule rendered_supplied)
  have b: "k \<in> dom (computed bg color onClick)"
    using assms(1) unfolding dom_computed by (auto simp: named_def)
  have c: "rendered props s =
           computed (fst (fst (CardBody_colors s))) (snd (fst (CardBody_colors s)))
             (get_prop props ''onClick'') ++ snd (destructure props)"
    by (simp add: rendered_unfold destructure_def)
  from a b c show ?thesis by blast
qed

theorem caller_overrides_default_witness:
  "''bg'' \<in> {''bg'', ''color'', ''w'', ''maxW'', ''rounded'', ''borderWidth'',
                 ''overflow'', ''direction''}
   \<and> [''bg'' \<mapsto> Str ''red'', ''p'' \<mapsto> Val (4::nat)] ''bg'' = Some (Str ''red'')
   \<and> rendered [''bg'' \<mapsto> Str ''red'', ''p'' \<mapsto> Val (4::nat)] \<lparr>colorMode = Dark\<rparr> ''bg''
       = Some (Str ''red'')
   \<and> ''bg'' \<in> dom (computed (Str ''original.dark'') (Str ''white'') (Undefined :: nat jsval))"
proof -
  let ?p = "[''bg'' \<mapsto> Str ''red'', ''p'' \<mapsto> Val (4::nat)]"
  let ?s = "\<lparr>colorMode = Dark\<rparr>"
  have m: "''bg'' \<in> {''bg'', ''color'', ''w'', ''maxW'', ''rounded'', ''borderWidth'',
                 ''overflow'', ''direction''}" by simp
  have v: "?p ''bg'' = Some (Str ''red'')" by simp
  from caller_overrides_default
         [of "''bg''" ?p "Str ''red''" ?s "Str ''original.dark''" "Str ''white''" Undefined,
          OF m v] m v
  show ?thesis by blast
qed

text \<open>
  C4. For every props object and every theme mode, the structural attributes written
  before the spread are \<^verbatim>\<open>w = "100%"\<close>, \<^verbatim>\<open>maxW = "100%"\<close>, \<^verbatim>\<open>rounded = "md"\<close>,
  \<^verbatim>\<open>borderWidth = "1px"\<close>, \<^verbatim>\<open>overflow = "hidden"\<close> and \<^verbatim>\<open>direction = "column"\<close>,
  whatever the colors and the click handler are; and each of them is the rendered value
  of its attribute whenever the caller supplies no attribute of that name.
\<close>

theorem structural_defaults:
  "computed bg color onClick ''w'' = Some (Str ''100%'')
   \<and> computed bg color onClick ''maxW'' = Some (Str ''100%'')
   \<and> computed bg color onClick ''rounded'' = Some (Str ''md'')
   \<and> computed bg color onClick ''borderWidth'' = Some (Str ''1px'')
   \<and> computed bg color onClick ''overflow'' = Some (Str ''hidden'')
   \<and> computed bg color onClick ''direction'' = Some (Str ''column'')
   \<and> (\<forall>k \<in> {''w'', ''maxW'', ''rounded'', ''borderWidth'', ''overflow'', ''direction''}.
         props k = None \<longrightarrow> rendered props s k = computed bg color onClick k)"
proof -
  have d: "computed bg color onClick ''w'' = Some (Str ''100%'')"
    "computed bg color onClick ''maxW'' = Some (Str ''100%'')"
    "computed bg color onClick ''rounded'' = Some (Str ''md'')"
    "computed bg color onClick ''borderWidth'' = Some (Str ''1px'')"
    "computed bg color onClick ''overflow'' = Some (Str ''hidden'')"
    "computed bg color onClick ''direction'' = Some (Str ''column'')"
    by (simp_all add: computed_def)
  have r: "props k = None \<longrightarrow> rendered props s k = computed bg color onClick k"
    if "k \<in> {''w'', ''maxW'', ''rounded'', ''borderWidth'', ''overflow'', ''direction''}"
    for k
  proof
    assume n: "props k = None"
    have "computed b c oc k = computed bg color onClick k" for b c oc
      using that by (auto simp: computed_def)
    with rendered_default [of props k s, OF n] show "rendered props s k = computed bg color onClick k"
      by simp
  qed
  from d r show ?thesis by blast
qed

theorem structural_defaults_witness:
  "rendered [''bg'' \<mapsto> Val (0::nat)] \<lparr>colorMode = Light\<rparr> ''w'' = Some (Str ''100%'')
   \<and> rendered [''bg'' \<mapsto> Val (0::nat)] \<lparr>colorMode = Light\<rparr> ''maxW'' = Some (Str ''100%'')
   \<and> rendered [''bg'' \<mapsto> Val (0::nat)] \<lparr>colorMode = Light\<rparr> ''rounded'' = Some (Str ''md'')
   \<and> rendered [''bg'' \<mapsto> Val (0::nat)] \<lparr>colorMode = Light\<rparr> ''borderWidth'' = Some (Str ''1px'')
   \<and> rendered [''bg'' \<mapsto> Val (0::nat)] \<lparr>colorMode = Light\<rparr> ''overflow'' = Some (Str ''hidden'')
   \<and> rendered [''bg'' \<mapsto> Val (0::nat)] \<lparr>colorMode = Light\<rparr> ''direction'' = Some (Str ''column'')"
proof -
  let ?p = "[''bg'' \<mapsto> Val (0::nat)]"
  let ?s = "\<lparr>colorMode = Light\<rparr>"
  have n: "?p ''w'' = None" "?p ''maxW'' = None" "?p ''rounded'' = None"
    "?p ''borderWidth'' = None" "?p ''overflow'' = None" "?p ''direction'' = None"
    by simp_all
  from structural_defaults [of Undefined Undefined Undefined ?p ?s] n
  show ?thesis by simp
qed

text \<open>
  C5. The click handler of the rendered container is the caller's: when the props hold a
  value under \<^verbatim>\<open>onClick\<close>, the rendered \<^verbatim>\<open>onClick\<close> attribute is that value; when
  they hold none, the rendered \<^verbatim>\<open>onClick\<close> attribute is \<^verbatim>\<open>undefined\<close>, so the
  rendering primitive is given no handler.
\<close>

theorem click_forwarded:
  "(props ''onClick'' = Some f \<longrightarrow> rendered props s ''onClick'' = Some f)
   \<and> (props ''onClick'' = None \<longrightarrow> rendered props s ''onClick'' = Some Undefined)"
  by (simp add: rendered_unfold computed_def get_prop_def map_add_def)

theorem click_forwarded_witness:
  "[''onClick'' \<mapsto> Val (7::nat), ''p'' \<mapsto> Str ''4''] ''onClick'' = Some (Val 7)
   \<and> rendered [''onClick'' \<mapsto> Val (7::nat), ''p'' \<mapsto> Str ''4''] \<lparr>colorMode = Light\<rparr> ''onClick''
       = Some (Val 7)
   \<and> [''p'' \<mapsto> Str ''4''] ''onClick'' = (None :: nat jsval option)
   \<and> rendered [''p'' \<mapsto> Str ''4''] \<lparr>colorMode = Light\<rparr> ''onClick''
       = Some (Undefined :: nat jsval)"
proof -
  let ?p = "[''onClick'' \<mapsto> Val (7::nat), ''p'' \<mapsto> Str ''4'']"
  let ?q = "[''p'' \<mapsto> Str ''4''] :: nat props"
  let ?s = "\<lparr>colorMode = Light\<rparr>"
  have a: "?p ''onClick'' = Some (Val 7)" by simp
  have b: "?q ''onClick'' = None" by simp
  from click_forwarded [of ?p "Val 7" ?s] click_forwarded [of ?q Undefined ?s] a b
  show ?thesis by blast
qed

text \<open>
  C6. The render is determined by the theme mode and the props alone: two renders with
  equal props, in two states that agree on the theme mode and may differ in everything
  else they hold, produce the same element, and so the same attribute set.
\<close>

theorem render_deterministic:
  assumes "colorMode s1 = colorMode s2" and "props1 = props2"
  shows "fst (CardBody props1 s1) = fst (CardBody props2 s2)
       \<and> rendered props1 s1 = rendered props2 s2"
  using assms by (simp add: rendered_def CardBody_unfold colors_unfold)

theorem render_deterministic_witness:
  "colorMode \<lparr>colorMode = Dark\<rparr> = colorMode \<lparr>colorMode = Dark, \<dots> = (5::nat)\<rparr>
   \<and> fst (CardBody [''bg'' \<mapsto> Val (0::nat)] \<lparr>colorMode = Dark\<rparr>)
       = fst (CardBody [''bg'' \<mapsto> Val (0::nat)] \<lparr>colorMode = Dark, \<dots> = (5::nat)\<rparr>)"
proof -
  let ?p = "[''bg'' \<mapsto> Val (0::nat)]"
  have h: "colorMode \<lparr>colorMode = Dark\<rparr> = colorMode \<lparr>colorMode = Dark, \<dots> = (5::nat)\<rparr>"
    by simp
  from render_deterministic [OF h, of ?p ?p] h show ?thesis by blast
qed

text \<open>
  C8. The resolver is defined on both theme modes, which are all there are: it returns
  the light value in Light mode and the dark value in Dark mode, and, when the two values
  differ, the light value exactly when the mode is Light.
\<close>

theorem useColorValue_total:
  "fst (useColorValue lightValue darkValue s)
     = (case colorMode s of Light \<Rightarrow> lightValue | Dark \<Rightarrow> darkValue)
   \<and> (colorMode s = Light \<or> colorMode s = Dark)
   \<and> (lightValue \<noteq> darkValue \<longrightarrow>
        (fst (useColorValue lightValue darkValue s) = lightValue \<longleftrightarrow> colorMode s = Light))"
  by (cases "colorMode s") (simp_all add: useColorValue_def)

theorem useColorValue_total_witness:
  "''white'' \<noteq> ''original.dark''
   \<and> fst (useColorValue ''white'' ''original.dark'' \<lparr>colorMode = Light\<rparr>) = ''white''
   \<and> fst (useColorValue ''white'' ''original.dark'' \<lparr>colorMode = Dark\<rparr>) = ''original.dark''"
proof -
  have h: "''white'' \<noteq> ''original.dark''" by simp
  from useColorValue_total [of "''white''" "''original.dark''" "\<lparr>colorMode = Light\<rparr>"]
       useColorValue_total [of "''white''" "''original.dark''" "\<lparr>colorMode = Dark\<rparr>"] h
  show ?thesis by simp
qed

text \<open>
  C9. The destructuring takes \<^verbatim>\<open>onClick\<close> out of the props: the rest holds no
  \<^verbatim>\<open>onClick\<close> key, the local \<^verbatim>\<open>onClick\<close> is \<^verbatim>\<open>props.onClick\<close>, and the rendered
  \<^verbatim>\<open>onClick\<close> attribute is exactly that value, the one written before the spread, which
  the spread leaves as it is.
\<close>

theorem onClick_not_in_rest:
  "snd (destructure props) ''onClick'' = None
   \<and> fst (destructure props) = get_prop props ''onClick''
   \<and> rendered props s ''onClick'' = Some (get_prop props ''onClick'')
   \<and> (computed bg color onClick ++ snd (destructure props)) ''onClick''
       = computed bg color onClick ''onClick''
   \<and> computed bg color onClick ''onClick'' = Some onClick"
  by (simp add: destructure_def rendered_unfold computed_def map_add_def)

text \<open>
  C10. The component writes the nine attributes \<^verbatim>\<open>bg\<close>, \<^verbatim>\<open>w\<close>, \<^verbatim>\<open>maxW\<close>,
  \<^verbatim>\<open>rounded\<close>, \<^verbatim>\<open>color\<close>, \<^verbatim>\<open>onClick\<close>, \<^verbatim>\<open>overflow\<close>, \<^verbatim>\<open>borderWidth\<close> and
  \<^verbatim>\<open>direction\<close> and no other: every other attribute is rendered exactly as the caller
  gave it, present with the caller's value or absent, and so is \<^verbatim>\<open>borderColor\<close>.
\<close>

theorem other_attributes_untouched:
  assumes "k \<notin> named"
  shows "rendered (props :: 'a props) s k = props k
       \<and> dom (computed bg color onClick) = named
       \<and> rendered props s ''borderColor'' = props ''borderColor''"
proof -
  have f: "rendered props s j = props j" if "j \<notin> named" for j
  proof -
    from that have ne: "j \<noteq> ''onClick''" by (auto simp: named_def)
    from that have c: "computed b c oc j = None" for b c oc :: "'a jsval"
      using dom_computed [of b c oc] by blast
    show ?thesis
      using ne c by (cases "props j") (simp_all add: rendered_unfold map_add_def)
  qed
  have b: "''borderColor'' \<notin> named" by (simp add: named_def)
  from f [OF assms] f [OF b] dom_computed [of bg color onClick] show ?thesis by blast
qed

theorem other_attributes_untouched_witness:
  "''borderColor'' \<notin> named
   \<and> rendered [''borderColor'' \<mapsto> Str ''red''] \<lparr>colorMode = Light\<rparr> ''borderColor''
       = Some (Str ''red'' :: nat jsval)
   \<and> rendered [''p'' \<mapsto> Str ''4''] \<lparr>colorMode = Light\<rparr> ''borderColor''
       = (None :: nat jsval option)"
proof -
  let ?p = "[''borderColor'' \<mapsto> Str ''red''] :: nat props"
  let ?q = "[''p'' \<mapsto> Str ''4''] :: nat props"
  let ?s = "\<lparr>colorMode = Light\<rparr>"
  have b: "''borderColor'' \<notin> named" by (simp add: named_def)
  let ?u = "Undefined :: nat jsval"
  from other_attributes_untouched [of "''borderColor''" ?p ?s ?u ?u ?u, OF b]
       other_attributes_untouched [of "''borderColor''" ?q ?s ?u ?u ?u, OF b] b
  show ?thesis by simp
qed

end
